theory Spec2Isabelle
  imports Complex_Main "HOL-Library.Log_Nat"
begin

section \<open>The countdown timer of \<^verbatim>\<open>tts_countdown.py\<close>\<close>

text \<open>
  The class \<^verbatim>\<open>CountdownTimer\<close> is embedded with explicit state passing. Everything the
  methods do besides changing the fields of the object is written into a list of events.

  \<^item> A \<^verbatim>\<open>datetime\<close> is the number of microseconds since \<^verbatim>\<open>datetime.min\<close>
    (0001-01-01T00:00:00), which is the resolution of the type; a \<^verbatim>\<open>timedelta\<close> is a
    number of microseconds. Both are Python values of bounded range, and the two
    constructions that leave the range raise \<^verbatim>\<open>OverflowError\<close>.
  \<^item> \<^verbatim>\<open>total_seconds()\<close> is the microsecond count divided by \<open>10\<^sup>6\<close> as a Python float: the
    quotient of the two integers rounded to the nearest number with a mantissa of 53 bits,
    ties to even. The model computes this rounding on integers. The results of
    \<^verbatim>\<open>total_seconds()\<close> are compared with zero and with each other, or passed to \<^verbatim>\<open>int\<close>;
    the comparisons are those of the microsecond counts, since the rounding is monotone and
    keeps the sign, and only \<^verbatim>\<open>int(...)\<close> on line 130 sees the rounded value. The sleep time
    is kept in microseconds; the float that \<^verbatim>\<open>time.sleep\<close> receives differs from it by less
    than the resolution of the clock.
  \<^item> The clock is read from the environment: the time that \<^verbatim>\<open>datetime.now()\<close> returns at
    each call is an input of the model.
  \<^item> The flag \<^verbatim>\<open>_running\<close> is written by another thread when that thread calls
    \<^verbatim>\<open>stop()\<close>. The places where this write can fall between two reads of the flag by
    the loop are inputs of the model as well.
  \<^item> The observer callback is code of the caller: it returns or it raises.
\<close>

subsection \<open>Time\<close>

type_synonym datetime = int
type_synonym timedelta = int

datatype error = RuntimeError | ValueError | OverflowError | TypeError | CallbackError

text \<open>\<^verbatim>\<open>datetime.max\<close> is 9999-12-31T23:59:59.999999.\<close>

definition datetime_max :: datetime where
  "datetime_max = 315537897599999999"

text \<open>
  \<^verbatim>\<open>timedelta(seconds=n)\<close>: the value is normalised to days, seconds and microseconds, and
  a number of days above 999999999 in magnitude raises \<^verbatim>\<open>OverflowError\<close>.
\<close>

definition timedelta_seconds :: "int \<Rightarrow> error + timedelta" where
  "timedelta_seconds n =
     (if n div 86400 < - 999999999 \<or> 999999999 < n div 86400 then Inl OverflowError
      else Inr (n * 1000000))"

text \<open>\<^verbatim>\<open>datetime + timedelta\<close>: a result outside the years 1 to 9999 raises \<^verbatim>\<open>OverflowError\<close>.\<close>

definition datetime_add :: "datetime \<Rightarrow> timedelta \<Rightarrow> error + datetime" where
  "datetime_add t d =
     (if t + d < 0 \<or> datetime_max < t + d then Inl OverflowError else Inr (t + d))"

text \<open>\<^verbatim>\<open>now.microsecond\<close>, the part of the time below the whole second.\<close>

definition microsecond :: "datetime \<Rightarrow> int" where
  "microsecond t = t mod 1000000"

text \<open>
  A Python float that is the quotient of two integers is kept as a mantissa \<open>m\<close> and an
  exponent \<open>e\<close>: the number \<open>m \<times> 2\<^sup>e\<close>. \<open>round_half_even n d\<close> is the integer nearest to
  \<open>n / d\<close>, the even one of two that are equally near.
\<close>

definition round_half_even :: "int \<Rightarrow> int \<Rightarrow> int" where
  "round_half_even n d =
     (let q = n div d; r = n mod d
      in if 2 * r < d then q else if d < 2 * r then q + 1 else if even q then q else q + 1)"

text \<open>
  For positive \<open>a\<close> and \<open>b\<close>, the exponent \<open>e\<close> with \<open>2\<^sup>5\<^sup>2 \<le> a / (b \<times> 2\<^sup>e) < 2\<^sup>5\<^sup>3\<close>, found from
  the bit lengths of \<open>a\<close> and \<open>b\<close>.
\<close>

definition float_exponent :: "int \<Rightarrow> int \<Rightarrow> int" where
  "float_exponent a b =
     (let p = bitlen a - bitlen b
      in if a * 2 ^ nat (- p) < b * 2 ^ nat p then p - 53 else p - 52)"

text \<open>
  \<^verbatim>\<open>a / b\<close> for integers \<open>a\<close> and \<open>b > 0\<close>: the quotient, correctly rounded. (Quotients
  beyond the range of the exponent of a float do not occur: a \<^verbatim>\<open>timedelta\<close> has between
  \<open>10\<^sup>-\<^sup>6\<close> and \<open>10\<^sup>1\<^sup>4\<close> seconds in magnitude, or none.)
\<close>

definition true_divide :: "int \<Rightarrow> int \<Rightarrow> int \<times> int" where
  "true_divide a b =
     (if a = 0 then (0, 0)
      else
        let e = float_exponent \<bar>a\<bar> b;
            m = round_half_even (\<bar>a\<bar> * 2 ^ nat (- e)) (b * 2 ^ nat e)
        in (if a < 0 then - m else m, e))"

text \<open>\<^verbatim>\<open>td.total_seconds()\<close> for a \<^verbatim>\<open>timedelta\<close> of \<open>d\<close> microseconds.\<close>

definition total_seconds :: "timedelta \<Rightarrow> int \<times> int" where
  "total_seconds d = true_divide d 1000000"

text \<open>Python's \<^verbatim>\<open>int\<close> of a float drops the fraction, rounding towards zero.\<close>

definition py_int :: "int \<times> int \<Rightarrow> int" where
  "py_int x =
     (case x of (m, e) \<Rightarrow>
        if 0 \<le> e then m * 2 ^ nat e
        else if 0 \<le> m then m div 2 ^ nat (- e)
        else - ((- m) div 2 ^ nat (- e)))"

text \<open>\<^verbatim>\<open>int(td.total_seconds())\<close>\<close>

definition int_total_seconds :: "timedelta \<Rightarrow> int" where
  "int_total_seconds d = py_int (total_seconds d)"

subsection \<open>The object and what it emits\<close>

datatype cb_outcome = Returns | Raises

text \<open>
  The callback stored by \<^verbatim>\<open>start\<close>: a Python object with a truth value, which the tests
  \<^verbatim>\<open>if self._callback:\<close> read, and with what a call of it does.
\<close>

datatype observer = Callable (truthy: bool) (on_call: "int \<Rightarrow> cb_outcome")

record timer =
  running :: bool
  current_count :: int
  start_time :: "datetime option"
  end_time :: "datetime option"
  count_thread :: bool
  callback :: "observer option"

text \<open>
  \<^item> \<open>Set_count c\<close>: the field \<^verbatim>\<open>_current_count\<close> is assigned \<open>c\<close>;
  \<^item> \<open>Speak_count c\<close>: \<^verbatim>\<open>_speak_count(c)\<close> starts its speech thread;
  \<^item> \<open>Speak_final\<close>: \<^verbatim>\<open>_speak_final()\<close> starts its speech thread;
  \<^item> \<open>Observer c\<close>: the callback is called with \<open>c\<close>;
  \<^item> \<open>Sleep d\<close>: \<^verbatim>\<open>time.sleep\<close> is called once, for \<open>d\<close> microseconds;
  \<^item> \<open>Spawn_loop\<close>: the thread of \<^verbatim>\<open>_run_countdown\<close> is started;
  \<^item> \<open>Stop_request\<close>: another thread executes \<^verbatim>\<open>self._running = False\<close> of \<^verbatim>\<open>stop()\<close>.
\<close>

datatype event =
    Set_count int
  | Speak_count int
  | Speak_final
  | Observer int
  | Sleep int
  | Spawn_loop
  | Stop_request

text \<open>\<^verbatim>\<open>__init__\<close>\<close>

definition init_timer :: timer where
  "init_timer = \<lparr>running = False, current_count = 0, start_time = None, end_time = None,
     count_thread = False, callback = None\<rparr>"

text \<open>The properties \<^verbatim>\<open>is_running\<close> and \<^verbatim>\<open>current_count\<close>.\<close>

definition is_running :: "timer \<Rightarrow> bool" where
  "is_running s = running s"

definition get_current_count :: "timer \<Rightarrow> int" where
  "get_current_count s = current_count s"

text \<open>
  \<^verbatim>\<open>_speak_count\<close> and \<^verbatim>\<open>_speak_final\<close> start a daemon thread and return. The thread of
  \<^verbatim>\<open>_speak_count\<close> says the number only when it is positive: what is heard is given by
  \<open>utterance\<close>.
\<close>

definition speak_count :: "int \<Rightarrow> event list" where
  "speak_count c = [Speak_count c]"

definition speak_final :: "event list" where
  "speak_final = [Speak_final]"

datatype phrase = Number int | Countdown_complete

fun utterance :: "event \<Rightarrow> phrase option" where
  "utterance (Speak_count c) = (if c > 0 then Some (Number c) else None)"
| "utterance Speak_final = Some Countdown_complete"
| "utterance _ = None"

text \<open>
  Calling the callback when there is one: \<^verbatim>\<open>if self._callback: self._callback(c)\<close>. A
  callback that is \<^verbatim>\<open>None\<close> or has a false truth value is not called.
\<close>

definition call_callback :: "timer \<Rightarrow> int \<Rightarrow> error option \<times> event list" where
  "call_callback s c =
     (case callback s of
        None \<Rightarrow> (None, [])
      | Some f \<Rightarrow>
          if truthy f then
            (case on_call f c of
               Returns \<Rightarrow> (None, [Observer c])
             | Raises \<Rightarrow> (Some CallbackError, [Observer c]))
          else (None, []))"

subsection \<open>\<^verbatim>\<open>start\<close>\<close>

text \<open>
  The arguments are those of the method and the time \<open>now\<close> that \<^verbatim>\<open>datetime.now()\<close>
  returns on line 95. The result is the exception raised, if any, the object afterwards and
  the events. The fields are assigned before the end time is computed, so an
  \<^verbatim>\<open>OverflowError\<close> leaves them assigned.
\<close>

definition start ::
  "int \<Rightarrow> observer option \<Rightarrow> bool \<Rightarrow> datetime \<Rightarrow> timer
     \<Rightarrow> error option \<times> timer \<times> event list" where
  "start seconds cb start_immediately now s =
     (if running s then (Some RuntimeError, s, [])
      else if seconds \<le> 0 then (Some ValueError, s, [])
      else
        let s1 = s\<lparr>running := True, current_count := seconds, callback := cb,
                   start_time := Some now\<rparr>;
            ev1 = [Set_count seconds]
        in case timedelta_seconds seconds of
             Inl x \<Rightarrow> (Some x, s1, ev1)
           | Inr d \<Rightarrow>
               (case datetime_add now d of
                  Inl x \<Rightarrow> (Some x, s1, ev1)
                | Inr e \<Rightarrow>
                    let s2 = s1\<lparr>end_time := Some e\<rparr>;
                        ev2 = (if start_immediately then speak_count (current_count s2) else [])
                    in (None, s2\<lparr>count_thread := True\<rparr>, ev1 @ ev2 @ [Spawn_loop])))"

subsection \<open>\<^verbatim>\<open>stop\<close>\<close>

text \<open>
  \<^verbatim>\<open>stop()\<close> clears the flag, waits for the thread for at most one second and forgets the
  handle. The wait changes no field.
\<close>

definition stop :: "timer \<Rightarrow> timer" where
  "stop s = s\<lparr>running := False, count_thread := False\<rparr>"

text \<open>
  The first statement of \<^verbatim>\<open>stop()\<close>, executed by another thread while the loop runs, when
  the flag \<open>b\<close> of the schedule says so.
\<close>

definition other_thread_stop :: "bool \<Rightarrow> timer \<Rightarrow> timer \<times> event list" where
  "other_thread_stop b s = (if b then (s\<lparr>running := False\<rparr>, [Stop_request]) else (s, []))"

subsection \<open>\<^verbatim>\<open>_run_countdown\<close>\<close>

text \<open>
  What the environment contributes to one iteration of the loop:
  \<^item> \<open>now1\<close>: the time read at the top of the body (line 111);
  \<^item> \<open>stop_sleep\<close>: \<^verbatim>\<open>stop()\<close> is called between the test of the \<^verbatim>\<open>while\<close> and the test
    after the sleep (line 126), that is, in practice, during the sleep;
  \<^item> \<open>now2\<close>: the time read when the count is recomputed (line 130);
  \<^item> \<open>stop_late\<close>: \<^verbatim>\<open>stop()\<close> is called right after the test of line 126; the loop reads the
    flag again only at the next test of the \<^verbatim>\<open>while\<close>.
\<close>

record tick =
  now1 :: datetime
  stop_sleep :: bool
  now2 :: datetime
  stop_late :: bool

text \<open>
  The whole schedule of one run of the thread: the iterations, and the calls of
  \<^verbatim>\<open>stop()\<close> that fall just before and just after the test of line 138.
\<close>

record schedule =
  ticks :: "tick list"
  stop_before_final :: bool
  stop_after_final_test :: bool

datatype flow = Continued | Broke | Raised error

text \<open>Lines 119 and 120, in microseconds.\<close>

definition time_until_next_second :: "datetime \<Rightarrow> int" where
  "time_until_next_second now = 1000000 - microsecond now"

definition sleep_time :: "datetime \<Rightarrow> datetime \<Rightarrow> int" where
  "sleep_time e now = min (time_until_next_second now) (e - now)"

text \<open>Line 130.\<close>

definition new_count :: "datetime \<Rightarrow> datetime \<Rightarrow> int" where
  "new_count e now = int_total_seconds (e - now) + 1"

text \<open>
  The body of the \<^verbatim>\<open>while\<close> (lines 111 to 135). Subtracting from an end time that is
  still \<^verbatim>\<open>None\<close> raises \<^verbatim>\<open>TypeError\<close>.
\<close>

definition loop_body :: "tick \<Rightarrow> timer \<Rightarrow> flow \<times> timer \<times> event list" where
  "loop_body k s =
     (case end_time s of
        None \<Rightarrow> (Raised TypeError, s, [])
      | Some e \<Rightarrow>
          let time_to_next = e - now1 k in
          if time_to_next \<le> 0 then (Broke, s\<lparr>current_count := 0\<rparr>, [Set_count 0])
          else
            let ev1 = (if sleep_time e (now1 k) > 0 then [Sleep (sleep_time e (now1 k))] else []);
                (s1, ev2) = other_thread_stop (stop_sleep k) s
            in if \<not> running s1 then (Broke, s1, ev1 @ ev2)
               else
                 let (s2, ev3) = other_thread_stop (stop_late k) s1;
                     n = new_count e (now2 k)
                 in if n < current_count s2 then
                      let s3 = s2\<lparr>current_count := n\<rparr>;
                          ev4 = [Set_count n] @ speak_count (current_count s3);
                          (x, ev5) = call_callback s3 (current_count s3)
                      in (case x of
                            None \<Rightarrow> (Continued, s3, ev1 @ ev2 @ ev3 @ ev4 @ ev5)
                          | Some err \<Rightarrow> (Raised err, s3, ev1 @ ev2 @ ev3 @ ev4 @ ev5))
                    else (Continued, s2, ev1 @ ev2 @ ev3))"

text \<open>
  The \<^verbatim>\<open>while\<close> loop (line 110). Each iteration takes one \<open>tick\<close> of the schedule; a
  schedule that ends while the loop is still running gives \<open>None\<close>. The result is the
  exception that left the loop, if any, the object and the events.
\<close>

fun countdown_loop :: "tick list \<Rightarrow> timer \<Rightarrow> (error option \<times> timer \<times> event list) option" where
  "countdown_loop [] s =
     (if running s \<and> current_count s > 0 then None else Some (None, s, []))"
| "countdown_loop (k # ks) s =
     (if running s \<and> current_count s > 0 then
        (case loop_body k s of
           (Continued, s', ev) \<Rightarrow>
             (case countdown_loop ks s' of
                None \<Rightarrow> None
              | Some (x, s'', ev') \<Rightarrow> Some (x, s'', ev @ ev'))
         | (Broke, s', ev) \<Rightarrow> Some (None, s', ev)
         | (Raised err, s', ev) \<Rightarrow> Some (Some err, s', ev))
      else Some (None, s, []))"

text \<open>The final announcement (lines 138 to 141).\<close>

definition final_announcement :: "schedule \<Rightarrow> timer \<Rightarrow> error option \<times> timer \<times> event list" where
  "final_announcement sc s =
     (let (s1, ev1) = other_thread_stop (stop_before_final sc) s in
      if current_count s1 = 0 \<and> running s1 then
        let (s2, ev2) = other_thread_stop (stop_after_final_test sc) s1;
            (x, ev3) = call_callback s2 0
        in (x, s2, ev1 @ ev2 @ speak_final @ ev3)
      else (None, s1, ev1))"

text \<open>
  The method: the loop, the final announcement unless the loop raised, and the
  \<^verbatim>\<open>finally\<close> clause (line 143) on every path.
\<close>

definition run_countdown :: "schedule \<Rightarrow> timer \<Rightarrow> (error option \<times> timer \<times> event list) option" where
  "run_countdown sc s =
     (case countdown_loop (ticks sc) s of
        None \<Rightarrow> None
      | Some (Some err, s1, ev) \<Rightarrow> Some (Some err, s1\<lparr>running := False\<rparr>, ev)
      | Some (None, s1, ev) \<Rightarrow>
          (case final_announcement sc s1 of
             (x, s2, ev') \<Rightarrow> Some (x, s2\<lparr>running := False\<rparr>, ev @ ev')))"

subsection \<open>Observers and observations\<close>

text \<open>
  Three callbacks: one that always returns, one that always raises, and one with a false
  truth value.
\<close>

definition returning_observer :: observer where
  "returning_observer = Callable True (\<lambda>c. Returns)"

definition raising_observer :: observer where
  "raising_observer = Callable True (\<lambda>c. Raises)"

definition falsy_observer :: observer where
  "falsy_observer = Callable False (\<lambda>c. Returns)"

text \<open>The values assigned to \<^verbatim>\<open>_current_count\<close>, in order.\<close>

fun set_counts :: "event list \<Rightarrow> int list" where
  "set_counts [] = []"
| "set_counts (Set_count c # ev) = c # set_counts ev"
| "set_counts (_ # ev) = set_counts ev"

text \<open>The durations of the calls of \<^verbatim>\<open>time.sleep\<close>, in order.\<close>

fun sleeps :: "event list \<Rightarrow> int list" where
  "sleeps [] = []"
| "sleeps (Sleep d # ev) = d # sleeps ev"
| "sleeps (_ # ev) = sleeps ev"

text \<open>The announcements dispatched and the calls of the observer, in order.\<close>

fun announcements :: "event list \<Rightarrow> event list" where
  "announcements [] = []"
| "announcements (Speak_count c # ev) = Speak_count c # announcements ev"
| "announcements (Speak_final # ev) = Speak_final # announcements ev"
| "announcements (_ # ev) = announcements ev"

fun observer_calls :: "event list \<Rightarrow> int list" where
  "observer_calls [] = []"
| "observer_calls (Observer c # ev) = c # observer_calls ev"
| "observer_calls (_ # ev) = observer_calls ev"

text \<open>What follows the first \<open>Stop_request\<close>; nothing when there is none.\<close>

fun after_stop :: "event list \<Rightarrow> event list" where
  "after_stop [] = []"
| "after_stop (Stop_request # ev) = ev"
| "after_stop (_ # ev) = after_stop ev"

subsection \<open>A run of three seconds\<close>

text \<open>
  The object after \<^verbatim>\<open>start(3, cb)\<close> at 2026-11-04T12:00:00.300000, and clock readings of a
  run of its loop: the thread wakes a little after each whole second and a little after
  the end time. Two more readings: one where the thread oversleeps the end time by half
  a second, one after the end time.
\<close>

definition run3_timer :: timer where
  "run3_timer = \<lparr>running = True, current_count = 3, start_time = Some 63929390400300000,
     end_time = Some 63929390403300000, count_thread = True,
     callback = Some returning_observer\<rparr>"

definition tick_first :: tick where
  "tick_first = \<lparr>now1 = 63929390400300050, stop_sleep = False,
     now2 = 63929390401000100, stop_late = False\<rparr>"

definition tick_second :: tick where
  "tick_second = \<lparr>now1 = 63929390401000150, stop_sleep = False,
     now2 = 63929390402000100, stop_late = False\<rparr>"

definition tick_third :: tick where
  "tick_third = \<lparr>now1 = 63929390402000200, stop_sleep = False,
     now2 = 63929390403000100, stop_late = False\<rparr>"

definition tick_fourth :: tick where
  "tick_fourth = \<lparr>now1 = 63929390403000150, stop_sleep = False,
     now2 = 63929390403300080, stop_late = False\<rparr>"

definition tick_after_end :: tick where
  "tick_after_end = \<lparr>now1 = 63929390403300100, stop_sleep = False,
     now2 = 63929390403300100, stop_late = False\<rparr>"

definition tick_overslept :: tick where
  "tick_overslept = \<lparr>now1 = 63929390402900000, stop_sleep = False,
     now2 = 63929390403800000, stop_late = False\<rparr>"

definition run3_ticks :: "tick list" where
  "run3_ticks = [tick_first, tick_second, tick_third, tick_fourth, tick_after_end]"

definition no_stop_schedule :: "tick list \<Rightarrow> schedule" where
  "no_stop_schedule ks = \<lparr>ticks = ks, stop_before_final = False, stop_after_final_test = False\<rparr>"

subsection \<open>Stop requests\<close>

text \<open>
  Two iterations with a stop request: one where \<^verbatim>\<open>stop()\<close> is called while the loop sleeps
  for a whole second, one where it is called right after the test that follows the sleep.
\<close>

definition tick_stop_asleep :: tick where
  "tick_stop_asleep = \<lparr>now1 = 63929390401000000, stop_sleep = True,
     now2 = 63929390402000100, stop_late = False\<rparr>"

definition tick_stop_late :: tick where
  "tick_stop_late = \<lparr>now1 = 63929390401000150, stop_sleep = False,
     now2 = 63929390402000100, stop_late = True\<rparr>"

text \<open>
  The announcements and the calls of the observer that follow the first stop request. A
  stop is punctual when nothing follows; \<open>stopped_in_time\<close> says that a stop request has
  been made and seen, with at most one announcement and one call after it, and none when
  \<open>punctual\<close> holds.
\<close>

definition late_announcements :: "event list \<Rightarrow> event list" where
  "late_announcements ev = announcements (after_stop ev)"

definition late_observer_calls :: "event list \<Rightarrow> int list" where
  "late_observer_calls ev = observer_calls (after_stop ev)"

definition stopped_in_time :: "bool \<Rightarrow> timer \<Rightarrow> event list \<Rightarrow> bool" where
  "stopped_in_time punctual s ev =
     (Stop_request \<in> set ev \<and> \<not> running s
      \<and> length (late_announcements ev) \<le> 1 \<and> length (late_observer_calls ev) \<le> 1
      \<and> (punctual \<longrightarrow> late_announcements ev = [] \<and> late_observer_calls ev = []))"

subsection \<open>A run of one second that oversleeps\<close>

text \<open>
  The object after \<^verbatim>\<open>start(1, cb)\<close> at 2026-11-04T12:00:00.300000, and two iterations in which
  the thread, put to sleep for 0.69995 seconds, reads the clock again 1.5 seconds and 2.5
  seconds after the end time.
\<close>

definition run1_timer :: timer where
  "run1_timer = \<lparr>running = True, current_count = 1, start_time = Some 63929390400300000,
     end_time = Some 63929390401300000, count_thread = True,
     callback = Some returning_observer\<rparr>"

definition tick_stalled :: tick where
  "tick_stalled = \<lparr>now1 = 63929390400300050, stop_sleep = False,
     now2 = 63929390402800000, stop_late = False\<rparr>"

definition tick_stalled_long :: tick where
  "tick_stalled_long = \<lparr>now1 = 63929390400300050, stop_sleep = False,
     now2 = 63929390403800000, stop_late = False\<rparr>"

subsection \<open>The call of \<^verbatim>\<open>stop\<close> during a run\<close>

text \<open>
  A call of \<^verbatim>\<open>stop()\<close> by another thread while the loop runs. Its first statement clears the
  flag: the first \<open>Stop_request\<close> of the events. Then \<^verbatim>\<open>join(timeout=1)\<close> waits until the
  thread of the loop has ended, but for one second at most, and the call returns. How the
  wait ends depends on how long the thread takes, which is an input:
  \<^item> \<open>Thread_ended\<close>: the thread ended within the second; \<^verbatim>\<open>stop()\<close> returns after the last
    event of the thread;
  \<^item> \<open>Timed_out n\<close>: the second was over when the thread had issued \<open>n\<close> more events after
    the request; \<^verbatim>\<open>stop()\<close> returns then, and the thread goes on.

  \<open>issued_after_return\<close> gives the events that the thread issues after \<^verbatim>\<open>stop()\<close> has
  returned. \<open>stop_during_run\<close> gives the object when the thread and the call are both
  over, all events of the thread, and those issued after the return.
\<close>

datatype join_result = Thread_ended | Timed_out nat

definition issued_after_return :: "join_result \<Rightarrow> event list \<Rightarrow> event list" where
  "issued_after_return j ev =
     (case j of Thread_ended \<Rightarrow> [] | Timed_out n \<Rightarrow> drop n (after_stop ev))"

definition stop_during_run ::
  "join_result \<Rightarrow> schedule \<Rightarrow> timer \<Rightarrow> (timer \<times> event list \<times> event list) option" where
  "stop_during_run j sc s =
     (case run_countdown sc s of
        None \<Rightarrow> None
      | Some (x, s', ev) \<Rightarrow> Some (stop s', ev, issued_after_return j ev))"

text \<open>
  An iteration in which \<^verbatim>\<open>stop()\<close> is called right after the test that follows the sleep,
  and the thread is then held up for a second before it reads the clock on line 130.
\<close>

definition tick_stop_stalled :: tick where
  "tick_stop_stalled = \<lparr>now1 = 63929390401000150, stop_sleep = False,
     now2 = 63929390403000200, stop_late = True\<rparr>"

section \<open>Properties\<close>

subsection \<open>Arithmetic of the clock\<close>

lemma frac_microsecond:
  "frac (real_of_int t / 1000000) = real_of_int (microsecond t) / 1000000"
proof -
  have "\<lfloor>real_of_int t / real_of_int 1000000\<rfloor> = t div 1000000"
    by (rule floor_divide_of_int_eq)
  then have f: "\<lfloor>real_of_int t / 1000000\<rfloor> = t div 1000000" by simp
  have "t mod 1000000 = t - 1000000 * (t div 1000000)"
    by (simp add: minus_mult_div_eq_mod)
  then have r: "real_of_int (t mod 1000000) = real_of_int t - 1000000 * real_of_int (t div 1000000)"
    by simp
  show ?thesis unfolding frac_def f microsecond_def r by (simp add: field_simps)
qed

lemma microsecond_bounds: "0 \<le> microsecond t \<and> microsecond t < 1000000"
  by (simp add: microsecond_def)

lemma time_until_next_second_bounds:
  "0 < time_until_next_second t \<and> time_until_next_second t \<le> 1000000"
  using microsecond_bounds [of t] by (simp add: time_until_next_second_def)

lemma sleep_time_bounds:
  "0 < e - t \<Longrightarrow> 0 < sleep_time e t \<and> sleep_time e t \<le> 1000000"
  using time_until_next_second_bounds [of t] by (auto simp add: sleep_time_def min_def)

lemma sleep_time_seconds:
  "real_of_int (sleep_time e t) / 1000000
     = min (1 - frac (real_of_int t / 1000000)) (real_of_int (e - t) / 1000000)"
  by (simp add: sleep_time_def time_until_next_second_def frac_microsecond min_def field_simps)

subsection \<open>Rounding to a float\<close>

lemma bitlen_million: "bitlen 1000000 = 20"
  by code_simp

lemma round_half_even_bounds:
  assumes "0 < d"
  shows "n div d \<le> round_half_even n d" and "round_half_even n d \<le> n div d + 1"
    and "round_half_even n d = n div d + 1 \<Longrightarrow> d \<le> 2 * (n mod d)"
  by (auto simp add: round_half_even_def Let_def split: if_splits)

lemma scaled_round_div:
  assumes "0 \<le> a" and "500000 < P"
  shows "round_half_even (a * P) 1000000 div P = a div 1000000"
proof -
  define k j where "k = a div 1000000" and "j = a mod 1000000"
  define u r where "u = (j * P) div 1000000" and "r = (j * P) mod 1000000"
  define m where "m = round_half_even (a * P) 1000000"
  have a: "a = k * 1000000 + j" by (simp add: k_def j_def)
  have j: "0 \<le> j" "j \<le> 999999" by (simp_all add: j_def)
  have g: "(k * 1000000 + j) * P = j * P + (k * P) * 1000000"
    by (simp add: algebra_simps)
  have d: "(a * P) div 1000000 = u + k * P"
    unfolding a g u_def by simp
  have md: "(a * P) mod 1000000 = r"
    unfolding a g r_def by simp
  have jP: "j * P = 1000000 * u + r" by (simp add: u_def r_def)
  have r: "0 \<le> r" "r < 1000000" by (simp_all add: r_def)
  have "j * P \<le> 999999 * P" using j(2) assms(2) by (intro mult_right_mono) simp_all
  with jP have bound: "1000000 * u + r \<le> 999999 * P" by simp
  have "0 \<le> j * P" using j(1) assms(2) by simp
  then have u0: "0 \<le> u" by (simp add: u_def pos_imp_zdiv_nonneg_iff)
  note b = round_half_even_bounds [of 1000000 "a * P", simplified, folded m_def, unfolded d md]
  have lo: "k * P \<le> m" using b(1) u0 by linarith
  have hi: "m < k * P + P"
  proof (cases "m = u + k * P + 1")
    case True
    with b(3) have "1000000 \<le> 2 * r" by simp
    with bound assms(2) have "u < P - 1" by linarith
    with True show ?thesis by linarith
  next
    case False
    with b(1,2) have "m = u + k * P" by linarith
    moreover from bound r assms(2) have "u < P" by linarith
    ultimately show ?thesis by linarith
  qed
  have "m = P * k + (m - k * P)" by (simp add: algebra_simps)
  moreover have "0 \<le> m - k * P" "m - k * P < P" using lo hi by linarith+
  ultimately have "m div P = k" by (rule int_div_pos_eq)
  then show ?thesis by (simp add: m_def k_def)
qed

lemma float_exponent_small:
  assumes "0 < a" and "a < 17179869184000000"
  shows "float_exponent a 1000000 \<le> - 19"
proof -
  have "a < 2 ^ nat 54" using assms(2) by simp
  then have "bitlen a \<le> 54" using bitlen_le_iff_power [of a 54] by simp
  then have p: "bitlen a - bitlen 1000000 \<le> 34" by (simp add: bitlen_million)
  show ?thesis
  proof (cases "bitlen a - bitlen 1000000 = 34")
    case True
    with assms(2) show ?thesis by (simp add: float_exponent_def)
  next
    case False
    with p have "bitlen a - bitlen 1000000 \<le> 33" by simp
    then show ?thesis by (simp add: float_exponent_def Let_def)
  qed
qed

lemma round_half_even_nonneg:
  assumes "0 \<le> n" and "0 < d"
  shows "0 \<le> round_half_even n d"
proof -
  from assms have "0 \<le> n div d" by (simp add: pos_imp_zdiv_nonneg_iff)
  also have "\<dots> \<le> round_half_even n d" using assms(2) by (rule round_half_even_bounds(1))
  finally show ?thesis .
qed

lemma true_divide_small:
  assumes "0 < d" and "d < 17179869184000000"
  obtains m e where "true_divide d 1000000 = (m, e)" and "0 \<le> m" and "e < 0"
    and "m div 2 ^ nat (- e) = d div 1000000"
proof -
  define e where "e = float_exponent d 1000000"
  define P :: int where "P = 2 ^ nat (- e)"
  define m where "m = round_half_even (d * P) 1000000"
  from float_exponent_small [OF assms] have e: "e \<le> - 19" by (simp add: e_def)
  then have "(2::int) ^ 19 \<le> P" unfolding P_def by (intro power_increasing) simp_all
  then have P: "500000 < P" by simp
  from e have n: "nat e = 0" by simp
  have ad: "\<bar>d\<bar> = d" using assms(1) by simp
  have "true_divide d 1000000 = (m, e)"
    using assms(1) unfolding true_divide_def Let_def ad e_def [symmetric] n P_def [symmetric]
    by (simp add: m_def)
  moreover have "0 \<le> m" unfolding m_def using assms(1) P by (intro round_half_even_nonneg) simp_all
  moreover have "e < 0" using e by simp
  moreover have "m div P = d div 1000000"
    unfolding m_def using assms(1) P by (intro scaled_round_div) simp_all
  ultimately show ?thesis using that by (simp add: P_def)
qed

lemma true_divide_neg:
  "d \<noteq> 0 \<Longrightarrow> true_divide (- d) b = (- fst (true_divide d b), snd (true_divide d b))"
  by (simp add: true_divide_def Let_def)

lemma int_total_seconds_exact:
  assumes "- 17179869184000000 < d" and "d < 17179869184000000"
  shows "int_total_seconds d = (if 0 \<le> d then d div 1000000 else - ((- d) div 1000000))"
proof -
  consider "d = 0" | "0 < d" | "d < 0" by linarith
  then show ?thesis
  proof cases
    case 1
    then show ?thesis
      by (simp add: int_total_seconds_def total_seconds_def true_divide_def py_int_def)
  next
    case 2
    from true_divide_small [OF 2 assms(2)] obtain m e where
      x: "true_divide d 1000000 = (m, e)" and "0 \<le> m" "e < 0"
      and "m div 2 ^ nat (- e) = d div 1000000"
      by blast
    then show ?thesis using 2
      by (simp add: int_total_seconds_def total_seconds_def py_int_def)
  next
    case 3
    then have pos: "0 < - d" and small: "- d < 17179869184000000" using assms(1) by simp_all
    from true_divide_small [OF pos small] obtain m e where
      x: "true_divide (- d) 1000000 = (m, e)" and m: "0 \<le> m" and e: "e < 0"
      and q: "m div 2 ^ nat (- e) = (- d) div 1000000"
      by blast
    from pos have "- d \<noteq> 0" by simp
    from true_divide_neg [OF this, of 1000000] x
    have y: "true_divide d 1000000 = (- m, e)" by simp
    have "py_int (- m, e) = - (m div 2 ^ nat (- e))"
    proof (cases "m = 0")
      case True
      then show ?thesis using e by (simp add: py_int_def)
    next
      case False
      with m have "\<not> 0 \<le> - m" by simp
      then show ?thesis using e by (simp add: py_int_def)
    qed
    then show ?thesis using 3 y q
      by (simp add: int_total_seconds_def total_seconds_def)
  qed
qed

subsection \<open>Whole seconds\<close>

lemma int_total_seconds_floor:
  assumes "0 \<le> d" and "d < 17179869184000000"
  shows "int_total_seconds d = \<lfloor>real_of_int d / 1000000\<rfloor>"
proof -
  have "\<lfloor>real_of_int d / real_of_int 1000000\<rfloor> = d div 1000000"
    by (rule floor_divide_of_int_eq)
  then show ?thesis using assms by (simp add: int_total_seconds_exact)
qed

lemma int_total_seconds_small_negative:
  "- 1000000 < d \<Longrightarrow> d < 0 \<Longrightarrow> int_total_seconds d = 0"
  by (simp add: int_total_seconds_exact)

subsection \<open>\<^verbatim>\<open>start\<close>\<close>

lemma start_in_range:
  assumes "0 < n" and "0 \<le> now" and "now + n * 1000000 \<le> datetime_max"
  shows "timedelta_seconds n = Inr (n * 1000000)"
    and "datetime_add now (n * 1000000) = Inr (now + n * 1000000)"
proof -
  from assms have "n \<le> 315537897599" by (simp add: datetime_max_def)
  then have "n div 86400 \<le> 315537897599 div 86400" by (rule zdiv_mono1) simp
  then show "timedelta_seconds n = Inr (n * 1000000)"
    using assms(1) by (simp add: timedelta_seconds_def pos_imp_zdiv_nonneg_iff)
  show "datetime_add now (n * 1000000) = Inr (now + n * 1000000)"
    using assms by (simp add: datetime_add_def)
qed

lemma start_accepted:
  "\<not> running s \<Longrightarrow> 0 < n \<Longrightarrow> 0 \<le> now \<Longrightarrow> now + n * 1000000 \<le> datetime_max \<Longrightarrow>
     fst (start n cb imm now s) = None"
  by (simp add: start_def start_in_range Let_def)

lemma start_same_outcome:
  "\<not> running s \<Longrightarrow> \<not> running s' \<Longrightarrow>
     fst (start n cb imm now s) = fst (start n cb imm now s')
     \<and> snd (snd (start n cb imm now s)) = snd (snd (start n cb imm now s'))"
  by (simp add: start_def Let_def split: sum.splits)

lemma start_same_state:
  assumes "\<not> running s" and "\<not> running s'" and "fst (start n cb imm now s') = None"
  shows "start n cb imm now s = start n cb imm now s'"
proof -
  have "s\<lparr>running := True, current_count := n, callback := cb, start_time := Some now,
      end_time := Some e, count_thread := True\<rparr>
    = s'\<lparr>running := True, current_count := n, callback := cb, start_time := Some now,
      end_time := Some e, count_thread := True\<rparr>" for e
    by (cases s, cases s') simp
  then show ?thesis using assms
    by (simp add: start_def Let_def split: sum.splits if_splits)
qed

text \<open>
  C6, as amended. For a call \<^verbatim>\<open>start(n, cb)\<close> with \<open>n > 0\<close> on an engine that is not running,
  at a time \<open>now\<close> for which \<open>now + n\<close> seconds is a \<^verbatim>\<open>datetime\<close> (not after the year
  9999): \<^verbatim>\<open>start\<close> raises nothing, sets \<^verbatim>\<open>_running\<close>, sets the count to \<open>n\<close>, stores the
  callback and the start time, sets the end time to \<open>now + n\<close> seconds, dispatches the
  announcement of \<open>n\<close>, starts the thread of the loop and returns: the events are these
  three and no event of the loop.
\<close>

theorem start_effects:
  assumes "0 < n" and "\<not> running s" and "0 \<le> now" and "now + n * 1000000 \<le> datetime_max"
  shows "start n cb True now s =
           (None,
            s\<lparr>running := True, current_count := n, callback := cb, start_time := Some now,
              end_time := Some (now + n * 1000000), count_thread := True\<rparr>,
            [Set_count n, Speak_count n, Spawn_loop])"
  using assms by (simp add: start_def start_in_range speak_count_def)

theorem start_effects_witness:
  "(0::int) < 3 \<and> \<not> running init_timer \<and> (0::int) \<le> 63929390400300000
   \<and> 63929390400300000 + 3 * 1000000 \<le> datetime_max
   \<and> start 3 (Some returning_observer) True 63929390400300000 init_timer =
        (None,
         \<lparr>running = True, current_count = 3, start_time = Some 63929390400300000,
          end_time = Some 63929390403300000, count_thread = True,
          callback = Some returning_observer\<rparr>,
         [Set_count 3, Speak_count 3, Spawn_loop])"
  using start_effects [of 3 init_timer 63929390400300000 "Some returning_observer"]
  by (simp add: init_timer_def datetime_max_def)

text \<open>
  C6 as stated fails: a duration of \<open>10\<^sup>1\<^sup>4\<close> seconds is positive, and
  \<^verbatim>\<open>timedelta(seconds=...)\<close> raises \<^verbatim>\<open>OverflowError\<close> for it. No end time is computed, no
  announcement is dispatched and no loop is started.
\<close>

theorem start_overflow_counterexample:
  "(0::int) < 100000000000000 \<and> \<not> running init_timer
   \<and> start 100000000000000 (Some returning_observer) True 63929390400300000 init_timer
       = (Some OverflowError,
          init_timer\<lparr>running := True, current_count := 100000000000000,
            callback := Some returning_observer, start_time := Some 63929390400300000\<rparr>,
          [Set_count 100000000000000])"
  by (simp add: start_def init_timer_def timedelta_seconds_def)

text \<open>
  C7. \<^verbatim>\<open>start\<close> on a running engine raises \<^verbatim>\<open>RuntimeError\<close> (the spec's
  \<open>AlreadyRunningError\<close>); on an engine that is not running, a duration that is not
  positive raises \<^verbatim>\<open>ValueError\<close> (the spec's \<open>InvalidDurationError\<close>). The test of the
  flag comes first. In both cases the object is unchanged and there is no event; so after
  \<^verbatim>\<open>start(0, cb)\<close> on an engine that is not running, \<^verbatim>\<open>is_running\<close> is false and the
  observer has not been called.
\<close>

theorem start_rejects:
  "(running s \<longrightarrow> start n cb imm now s = (Some RuntimeError, s, []))
   \<and> (\<not> running s \<and> n \<le> 0 \<longrightarrow> start n cb imm now s = (Some ValueError, s, []))
   \<and> (\<not> is_running s \<longrightarrow>
        (case start 0 cb imm now s of (x, s', ev) \<Rightarrow>
           x = Some ValueError \<and> \<not> is_running s' \<and> observer_calls ev = []))"
  by (simp add: start_def is_running_def)

theorem start_rejects_witness:
  "running (init_timer\<lparr>running := True\<rparr>)
   \<and> start 4 None True 63929390400300000 (init_timer\<lparr>running := True\<rparr>)
       = (Some RuntimeError, init_timer\<lparr>running := True\<rparr>, [])
   \<and> \<not> running init_timer \<and> (0::int) \<le> 0
   \<and> start 0 (Some returning_observer) True 63929390400300000 init_timer
       = (Some ValueError, init_timer, [])
   \<and> \<not> is_running init_timer"
  using start_rejects [of "init_timer\<lparr>running := True\<rparr>" 4 None True 63929390400300000]
    start_rejects [of init_timer 0 "Some returning_observer" True 63929390400300000]
  by (simp add: init_timer_def is_running_def)

subsection \<open>One iteration of the loop\<close>

lemma loop_body_timeout:
  "end_time s = Some e \<Longrightarrow> e - now1 k \<le> 0 \<Longrightarrow>
     loop_body k s = (Broke, s\<lparr>current_count := 0\<rparr>, [Set_count 0])"
  by (simp add: loop_body_def)

lemma loop_body_sleeps_first:
  assumes "end_time s = Some e" and "0 < e - now1 k"
  shows "\<exists>rest. snd (snd (loop_body k s)) = Sleep (sleep_time e (now1 k)) # rest \<and> sleeps rest = []"
  using assms sleep_time_bounds [of e "now1 k"]
  by (auto simp add: loop_body_def other_thread_stop_def call_callback_def speak_count_def Let_def
      split: option.splits cb_outcome.splits)

lemma countdown_loop_timeout:
  "end_time s = Some e \<Longrightarrow> e - now1 k \<le> 0 \<Longrightarrow> running s \<Longrightarrow> 0 < current_count s \<Longrightarrow>
     countdown_loop (k # ks) s = Some (None, s\<lparr>current_count := 0\<rparr>, [Set_count 0])"
  by (simp add: loop_body_timeout)

text \<open>
  C8. In an iteration (the loop is entered with the flag set and a positive count) with
  positive remaining time \<open>e - now\<close>, the body first sleeps, once, for
  \<open>min (time to the next whole second) (remaining time)\<close>, where the time to the next
  whole second is one second minus the fractional part of the clock reading; in seconds:
  \<open>min (1 - frac now) (e - now)\<close>. With remaining time that is not positive the body
  sets the count to 0 and breaks without sleeping, and \<^verbatim>\<open>_run_countdown\<close> goes on with the
  final announcement.
\<close>

theorem loop_body_sleep:
  assumes "end_time s = Some e"
  shows "(0 < e - now1 k \<longrightarrow>
            (\<exists>rest. snd (snd (loop_body k s)) = Sleep (sleep_time e (now1 k)) # rest
                \<and> sleeps rest = [])
            \<and> real_of_int (sleep_time e (now1 k)) / 1000000
                = min (1 - frac (real_of_int (now1 k) / 1000000))
                    (real_of_int (e - now1 k) / 1000000))
       \<and> (e - now1 k \<le> 0 \<and> running s \<and> 0 < current_count s \<and> ticks sc = k # ks \<longrightarrow>
            loop_body k s = (Broke, s\<lparr>current_count := 0\<rparr>, [Set_count 0])
            \<and> run_countdown sc s =
                (case final_announcement sc (s\<lparr>current_count := 0\<rparr>) of
                   (x, s2, ev) \<Rightarrow> Some (x, s2\<lparr>running := False\<rparr>, Set_count 0 # ev)))"
  using assms loop_body_sleeps_first [of s e k] sleep_time_seconds [of e "now1 k"]
    loop_body_timeout [of s e k]
  by (auto simp add: run_countdown_def split: prod.splits)

theorem loop_body_sleep_witness:
  "end_time run3_timer = Some 63929390403300000
   \<and> 0 < 63929390403300000 - now1 tick_first
   \<and> snd (snd (loop_body tick_first run3_timer)) = [Sleep 699950]
   \<and> real_of_int (sleep_time 63929390403300000 (now1 tick_first)) / 1000000
        = min (1 - frac (real_of_int (now1 tick_first) / 1000000))
            (real_of_int (63929390403300000 - now1 tick_first) / 1000000)
   \<and> 63929390403300000 - now1 tick_after_end \<le> 0
   \<and> running run3_timer \<and> 0 < current_count run3_timer
   \<and> ticks (no_stop_schedule [tick_after_end]) = [tick_after_end]
   \<and> loop_body tick_after_end run3_timer
        = (Broke, run3_timer\<lparr>current_count := 0\<rparr>, [Set_count 0])
   \<and> run_countdown (no_stop_schedule [tick_after_end]) run3_timer
        = Some (None, run3_timer\<lparr>current_count := 0, running := False\<rparr>,
            [Set_count 0, Speak_final, Observer 0])"
proof -
  have e: "end_time run3_timer = Some 63929390403300000"
    and r: "running run3_timer \<and> 0 < current_count run3_timer"
    by (simp_all add: run3_timer_def)
  have p: "0 < 63929390403300000 - now1 tick_first" by (simp add: tick_first_def)
  have q: "63929390403300000 - now1 tick_after_end \<le> 0" by (simp add: tick_after_end_def)
  have t: "ticks (no_stop_schedule [tick_after_end]) = [tick_after_end]"
    by (simp add: no_stop_schedule_def)
  have f: "final_announcement (no_stop_schedule [tick_after_end]) (run3_timer\<lparr>current_count := 0\<rparr>)
      = (None, run3_timer\<lparr>current_count := 0\<rparr>, [Speak_final, Observer 0])"
    by (simp add: final_announcement_def no_stop_schedule_def other_thread_stop_def
        run3_timer_def call_callback_def returning_observer_def speak_final_def)
  have b: "snd (snd (loop_body tick_first run3_timer)) = [Sleep 699950]"
    by (simp add: run3_timer_def tick_first_def loop_body_def sleep_time_def
        time_until_next_second_def microsecond_def other_thread_stop_def new_count_def
        int_total_seconds_exact)
  note first = loop_body_sleep [OF e, of tick_first]
  note last = loop_body_sleep [OF e, of tick_after_end "no_stop_schedule [tick_after_end]" "[]"]
  from first p have s: "real_of_int (sleep_time 63929390403300000 (now1 tick_first)) / 1000000
        = min (1 - frac (real_of_int (now1 tick_first) / 1000000))
            (real_of_int (63929390403300000 - now1 tick_first) / 1000000)"
    by blast
  from last q r t have l: "loop_body tick_after_end run3_timer
        = (Broke, run3_timer\<lparr>current_count := 0\<rparr>, [Set_count 0])"
    and u: "run_countdown (no_stop_schedule [tick_after_end]) run3_timer =
        (case final_announcement (no_stop_schedule [tick_after_end])
               (run3_timer\<lparr>current_count := 0\<rparr>) of
           (x, s2, ev) \<Rightarrow> Some (x, s2\<lparr>running := False\<rparr>, Set_count 0 # ev))"
    by blast+
  from u f have "run_countdown (no_stop_schedule [tick_after_end]) run3_timer
        = Some (None, run3_timer\<lparr>current_count := 0, running := False\<rparr>,
            [Set_count 0, Speak_final, Observer 0])"
    by simp
  with e r p q t b s l show ?thesis by blast
qed

text \<open>
  C4, as amended. The count recomputed after waking is \<open>\<lfloor>e - now\<rfloor> + 1\<close> (in seconds)
  when \<open>e - now\<close> is not negative and below \<open>2\<^sup>3\<^sup>4\<close> seconds (17179869184 s, some 544 years).
  When \<open>e - now\<close> is negative and above minus one second, the recomputed count is 1, because
  \<^verbatim>\<open>int\<close> rounds towards zero; the count becomes 0 in the next iteration, whose test of the
  remaining time sets it to 0 and leaves the loop.
\<close>

theorem new_count_value:
  "(0 \<le> e - t \<and> e - t < 17179869184000000 \<longrightarrow>
      new_count e t = \<lfloor>real_of_int (e - t) / 1000000\<rfloor> + 1)
   \<and> (- 1000000 < e - t \<and> e - t < 0 \<longrightarrow> new_count e t = 1)
   \<and> (e - t < 0 \<and> t \<le> now1 k \<and> end_time s = Some e \<and> running s \<and> 0 < current_count s \<longrightarrow>
        countdown_loop (k # ks) s = Some (None, s\<lparr>current_count := 0\<rparr>, [Set_count 0]))"
  using int_total_seconds_floor [of "e - t"] int_total_seconds_small_negative [of "e - t"]
    countdown_loop_timeout [of s e k ks]
  by (simp add: new_count_def)

theorem new_count_value_witness:
  "(0::int) \<le> 63929390403300000 - 63929390401000100
   \<and> 63929390403300000 - 63929390401000100 < (17179869184000000::int)
   \<and> new_count 63929390403300000 63929390401000100
       = \<lfloor>real_of_int (63929390403300000 - 63929390401000100) / 1000000\<rfloor> + 1
   \<and> new_count 63929390403300000 63929390401000100 = 3
   \<and> - 1000000 < 63929390403300000 - (63929390403300080::int)
   \<and> 63929390403300000 - 63929390403300080 < (0::int)
   \<and> new_count 63929390403300000 63929390403300080 = 1
   \<and> 63929390403300080 \<le> now1 tick_after_end
   \<and> end_time (run3_timer\<lparr>current_count := 1\<rparr>) = Some 63929390403300000
   \<and> running (run3_timer\<lparr>current_count := 1\<rparr>)
   \<and> 0 < current_count (run3_timer\<lparr>current_count := 1\<rparr>)
   \<and> countdown_loop [tick_after_end] (run3_timer\<lparr>current_count := 1\<rparr>)
       = Some (None, run3_timer\<lparr>current_count := 0\<rparr>, [Set_count 0])"
  using new_count_value [of 63929390403300000 63929390401000100]
    new_count_value [of 63929390403300000 63929390403300080 tick_after_end
      "run3_timer\<lparr>current_count := 1\<rparr>" "[]"]
  by (simp add: run3_timer_def tick_after_end_def new_count_def int_total_seconds_exact)

text \<open>
  C4 as stated fails in two places. Half a second after the end time the recomputed count
  is 1: the count 1 is assigned, announced and passed to the observer, and the loop
  continues. And a run of \<open>2 \<times> 10\<^sup>1\<^sup>0\<close> seconds that recomputes the count 1.000001 seconds after
  its start, with 19999999998.999999 seconds remaining, gets 20000000000, not
  \<open>\<lfloor>r\<rfloor> + 1 = 19999999999\<close>: the float of the remaining time is 19999999999.0.
\<close>

theorem new_count_negative_counterexample:
  "63929390403300000 - now2 tick_overslept < 0
   \<and> new_count 63929390403300000 (now2 tick_overslept) = 1
   \<and> loop_body tick_overslept (run3_timer\<lparr>current_count := 2\<rparr>)
       = (Continued, run3_timer\<lparr>current_count := 1\<rparr>,
          [Sleep 100000, Set_count 1, Speak_count 1, Observer 1])
   \<and> (0::int) \<le> 83929390400300000 - 63929390401300001
   \<and> total_seconds (83929390400300000 - 63929390401300001) = (5242879999737856, - 18)
   \<and> new_count 83929390400300000 63929390401300001 = 20000000000
   \<and> \<lfloor>real_of_int (83929390400300000 - 63929390401300001) / 1000000\<rfloor> + 1 = 19999999999"
proof -
  have a: "63929390403300000 - now2 tick_overslept < 0
   \<and> new_count 63929390403300000 (now2 tick_overslept) = 1
   \<and> loop_body tick_overslept (run3_timer\<lparr>current_count := 2\<rparr>)
       = (Continued, run3_timer\<lparr>current_count := 1\<rparr>,
          [Sleep 100000, Set_count 1, Speak_count 1, Observer 1])"
    by (simp add: run3_timer_def tick_overslept_def
      loop_body_def sleep_time_def time_until_next_second_def microsecond_def
      other_thread_stop_def new_count_def int_total_seconds_exact
      call_callback_def returning_observer_def speak_count_def)
  have b: "total_seconds (83929390400300000 - 63929390401300001) = (5242879999737856, - 18)"
    by code_simp
  have c: "new_count 83929390400300000 63929390401300001 = 20000000000"
    by code_simp
  have d: "\<lfloor>real_of_int (83929390400300000 - 63929390401300001) / 1000000\<rfloor> + 1 = 19999999999"
    by simp
  from a b c d show ?thesis by simp
qed

subsection \<open>The run of three seconds\<close>

lemmas tick_defs = tick_first_def tick_second_def tick_third_def tick_fourth_def
  tick_after_end_def

lemmas step_defs = loop_body_def sleep_time_def time_until_next_second_def microsecond_def
  other_thread_stop_def new_count_def int_total_seconds_exact call_callback_def
  speak_count_def speak_final_def final_announcement_def run_countdown_def
  returning_observer_def raising_observer_def no_stop_schedule_def

lemma run3_result:
  "run_countdown (no_stop_schedule run3_ticks) run3_timer =
     Some (None, run3_timer\<lparr>current_count := 0, running := False\<rparr>,
       [Sleep 699950, Sleep 999850, Set_count 2, Speak_count 2, Observer 2,
        Sleep 999800, Set_count 1, Speak_count 1, Observer 1, Sleep 299850,
        Set_count 0, Speak_final, Observer 0])"
  by (simp add: run3_ticks_def run3_timer_def tick_defs step_defs)

lemma run3_raising_result:
  "run_countdown (no_stop_schedule [tick_first, tick_second])
       (run3_timer\<lparr>callback := Some raising_observer\<rparr>) =
     Some (Some CallbackError,
       run3_timer\<lparr>callback := Some raising_observer, current_count := 2, running := False\<rparr>,
       [Sleep 699950, Sleep 999850, Set_count 2, Speak_count 2, Observer 2])"
  by (simp add: run3_timer_def tick_defs step_defs)

subsection \<open>The \<^verbatim>\<open>finally\<close> clause\<close>

lemma run_countdown_not_running:
  "run_countdown sc s = Some (x, s', ev) \<Longrightarrow> \<not> running s'"
  by (auto simp add: run_countdown_def split: option.splits prod.splits)

text \<open>
  C10. Whenever \<^verbatim>\<open>_run_countdown\<close> ends, by completion, by a stop that the loop has seen, or
  by an exception (of the observer, or the \<^verbatim>\<open>TypeError\<close> of a missing end time), the flag
  \<^verbatim>\<open>_running\<close> is false afterwards, and a later \<^verbatim>\<open>start\<close> with a positive duration within
  the range of \<^verbatim>\<open>datetime\<close> is accepted. (Dispatching an announcement only starts a
  thread; an error of the speech engine is raised in that thread and does not reach the
  loop.)
\<close>

theorem finally_clears_running:
  assumes "run_countdown sc s = Some (x, s', ev)"
  shows "\<not> is_running s'
    \<and> (0 < n \<and> 0 \<le> now \<and> now + n * 1000000 \<le> datetime_max \<longrightarrow>
         fst (start n cb imm now s') = None)"
  using run_countdown_not_running [OF assms] start_accepted [of s' n now cb imm]
  by (simp add: is_running_def)

theorem finally_clears_running_witness:
  "run_countdown (no_stop_schedule [tick_first, tick_second])
       (run3_timer\<lparr>callback := Some raising_observer\<rparr>) =
     Some (Some CallbackError,
       run3_timer\<lparr>callback := Some raising_observer, current_count := 2, running := False\<rparr>,
       [Sleep 699950, Sleep 999850, Set_count 2, Speak_count 2, Observer 2])
   \<and> \<not> is_running
         (run3_timer\<lparr>callback := Some raising_observer, current_count := 2, running := False\<rparr>)
   \<and> (0::int) < 5 \<and> (0::int) \<le> 63929390410000000
   \<and> 63929390410000000 + 5 * 1000000 \<le> datetime_max
   \<and> fst (start 5 None True 63929390410000000
         (run3_timer\<lparr>callback := Some raising_observer, current_count := 2, running := False\<rparr>))
       = None"
  using finally_clears_running [OF run3_raising_result, of 5 63929390410000000 None True]
    run3_raising_result
  by (simp add: datetime_max_def)

text \<open>
  C9. After a run that ended without a stop request and without an exception, the engine
  is not running, and \<^verbatim>\<open>start\<close> on it does what it does on an engine fresh from
  \<^verbatim>\<open>__init__\<close>: the same outcome (never \<^verbatim>\<open>RuntimeError\<close>), the same events, and, when it
  succeeds, the same object; it succeeds for every positive duration within the range of
  \<^verbatim>\<open>datetime\<close>.
\<close>

theorem restart_after_completion:
  assumes "run_countdown sc s = Some (None, s', ev)" and "Stop_request \<notin> set ev"
  shows "\<not> is_running s'
    \<and> fst (start n cb imm now s') \<noteq> Some RuntimeError
    \<and> fst (start n cb imm now s') = fst (start n cb imm now init_timer)
    \<and> snd (snd (start n cb imm now s')) = snd (snd (start n cb imm now init_timer))
    \<and> (fst (start n cb imm now init_timer) = None \<longrightarrow>
         start n cb imm now s' = start n cb imm now init_timer)
    \<and> (0 < n \<and> 0 \<le> now \<and> now + n * 1000000 \<le> datetime_max \<longrightarrow>
         fst (start n cb imm now s') = None)"
proof -
  have r: "\<not> running s'" using assms(1) by (rule run_countdown_not_running)
  have i: "\<not> running init_timer" by (simp add: init_timer_def)
  have "fst (start n cb imm now s') \<noteq> Some RuntimeError"
    using r by (simp add: start_def Let_def split: sum.splits)
       (auto simp add: timedelta_seconds_def datetime_add_def split: if_splits)
  then show ?thesis
    using r i start_same_outcome [OF r i, of n cb imm now] start_same_state [OF r i, of n cb imm now]
      start_accepted [OF r, of n now cb imm]
    by (simp add: is_running_def)
qed

theorem restart_after_completion_witness:
  "run_countdown (no_stop_schedule run3_ticks) run3_timer =
     Some (None, run3_timer\<lparr>current_count := 0, running := False\<rparr>,
       [Sleep 699950, Sleep 999850, Set_count 2, Speak_count 2, Observer 2,
        Sleep 999800, Set_count 1, Speak_count 1, Observer 1, Sleep 299850,
        Set_count 0, Speak_final, Observer 0])
   \<and> \<not> is_running (run3_timer\<lparr>current_count := 0, running := False\<rparr>)
   \<and> fst (start 5 None True 63929390410000000 init_timer) = None
   \<and> (0::int) < 5 \<and> (0::int) \<le> 63929390410000000
   \<and> 63929390410000000 + 5 * 1000000 \<le> datetime_max
   \<and> start 5 None True 63929390410000000 (run3_timer\<lparr>current_count := 0, running := False\<rparr>)
       = start 5 None True 63929390410000000 init_timer
   \<and> start 5 None True 63929390410000000 (run3_timer\<lparr>current_count := 0, running := False\<rparr>)
       = (None,
          \<lparr>running = True, current_count = 5, start_time = Some 63929390410000000,
           end_time = Some 63929390415000000, count_thread = True, callback = None\<rparr>,
          [Set_count 5, Speak_count 5, Spawn_loop])"
proof -
  have n: "Stop_request \<notin> set [Sleep 699950, Sleep 999850, Set_count 2, Speak_count 2, Observer 2,
        Sleep 999800, Set_count 1, Speak_count 1, Observer 1, Sleep 299850,
        Set_count 0, Speak_final, Observer 0]"
    by simp
  have i: "start 5 None True 63929390410000000 init_timer
       = (None,
          \<lparr>running = True, current_count = 5, start_time = Some 63929390410000000,
           end_time = Some 63929390415000000, count_thread = True, callback = None\<rparr>,
          [Set_count 5, Speak_count 5, Spawn_loop])"
    by (simp add: start_def init_timer_def timedelta_seconds_def datetime_add_def
        datetime_max_def speak_count_def)
  show ?thesis
    using restart_after_completion [OF run3_result n, of 5 None True 63929390410000000]
      run3_result i
    by (simp add: datetime_max_def)
qed

subsection \<open>Events of a run\<close>

lemma sleeps_append: "sleeps (a @ b) = sleeps a @ sleeps b"
  by (induction a rule: sleeps.induct) simp_all

lemma set_counts_append: "set_counts (a @ b) = set_counts a @ set_counts b"
  by (induction a rule: set_counts.induct) simp_all

lemma announcements_append: "announcements (a @ b) = announcements a @ announcements b"
  by (induction a rule: announcements.induct) simp_all

lemma observer_calls_append: "observer_calls (a @ b) = observer_calls a @ observer_calls b"
  by (induction a rule: observer_calls.induct) simp_all

lemma after_stop_append_without:
  "Stop_request \<notin> set a \<Longrightarrow> after_stop (a @ b) = after_stop b"
  by (induction a rule: after_stop.induct) simp_all

lemma after_stop_append_with:
  "Stop_request \<in> set a \<Longrightarrow> after_stop (a @ b) = after_stop a @ b"
  by (induction a rule: after_stop.induct) simp_all

lemma after_stop_without: "Stop_request \<notin> set a \<Longrightarrow> after_stop a = []"
  by (induction a rule: after_stop.induct) simp_all

subsection \<open>The sleep\<close>

lemma sleep_time_le: "sleep_time e t \<le> 1000000"
  using time_until_next_second_bounds [of t] by (auto simp add: sleep_time_def min_def)

lemma loop_body_sleeps:
  "loop_body k s = (f, s', ev) \<Longrightarrow>
     length (sleeps ev) \<le> 1 \<and> (\<forall>d \<in> set (sleeps ev). 0 < d \<and> d \<le> 1000000)"
  by (cases "end_time s")
     (auto simp add: loop_body_def other_thread_stop_def call_callback_def speak_count_def
        Let_def sleeps_append sleep_time_le
      split: if_splits option.splits cb_outcome.splits)

lemma countdown_loop_sleeps:
  "countdown_loop ks s = Some (x, s', ev) \<Longrightarrow> \<forall>d \<in> set (sleeps ev). 0 < d \<and> d \<le> 1000000"
proof (induction ks arbitrary: s x s' ev)
  case Nil
  then show ?case by (simp split: if_splits)
next
  case (Cons k ks)
  show ?case
  proof (cases "running s \<and> current_count s > 0")
    case False
    with Cons.prems show ?thesis by auto
  next
    case True
    obtain f s1 ev1 where b: "loop_body k s = (f, s1, ev1)" by (cases "loop_body k s") auto
    note bs = loop_body_sleeps [OF b]
    show ?thesis
    proof (cases f)
      case Continued
      with Cons.prems True b obtain ev2 where
        r: "countdown_loop ks s1 = Some (x, s', ev2)" and e: "ev = ev1 @ ev2"
        by (auto split: option.splits)
      from Cons.IH [OF r] bs e show ?thesis by (auto simp add: sleeps_append)
    next
      case Broke
      with Cons.prems True b bs show ?thesis by auto
    next
      case (Raised err)
      with Cons.prems True b bs show ?thesis by auto
    qed
  qed
qed

lemma final_announcement_sleeps:
  "final_announcement sc s = (x, s', ev) \<Longrightarrow> sleeps ev = []"
  by (auto simp add: final_announcement_def other_thread_stop_def call_callback_def
      speak_final_def Let_def sleeps_append split: if_splits option.splits cb_outcome.splits)

lemma run_countdown_sleeps:
  assumes "run_countdown sc s = Some (x, s', ev)"
  shows "\<forall>d \<in> set (sleeps ev). 0 < d \<and> d \<le> 1000000"
proof (cases "countdown_loop (ticks sc) s")
  case None
  with assms show ?thesis by (simp add: run_countdown_def)
next
  case (Some r)
  obtain y s1 ev1 where r: "r = (y, s1, ev1)" by (cases r) auto
  note l = countdown_loop_sleeps [OF Some [unfolded r]]
  show ?thesis
  proof (cases y)
    case None
    obtain z s2 ev2 where f: "final_announcement sc s1 = (z, s2, ev2)"
      by (cases "final_announcement sc s1") auto
    from assms Some r None f have "ev = ev1 @ ev2" by (simp add: run_countdown_def)
    with l final_announcement_sleeps [OF f] show ?thesis by (simp add: sleeps_append)
  next
    case (Some err)
    with assms \<open>countdown_loop (ticks sc) s = Some r\<close> r have "ev = ev1"
      by (simp add: run_countdown_def)
    with l show ?thesis by simp
  qed
qed

lemma loop_body_stop_in_sleep:
  "running s \<Longrightarrow> end_time s = Some e \<Longrightarrow> 0 < e - now1 k \<Longrightarrow> stop_sleep k \<Longrightarrow>
     loop_body k s = (Broke, s\<lparr>running := False\<rparr>, [Sleep (sleep_time e (now1 k)), Stop_request])"
  using sleep_time_bounds [of e "now1 k"]
  by (simp add: loop_body_def other_thread_stop_def)

lemma final_announcement_not_running:
  "\<not> running s \<Longrightarrow>
     final_announcement sc s =
       (None, s, if stop_before_final sc then [Stop_request] else [])"
  by (cases s) (simp add: final_announcement_def other_thread_stop_def)

lemma run_stop_asleep_result:
  "run_countdown (no_stop_schedule [tick_stop_asleep]) run3_timer =
     Some (None, run3_timer\<lparr>running := False\<rparr>, [Sleep 1000000, Stop_request])"
  by (simp add: run3_timer_def tick_stop_asleep_def step_defs)

text \<open>
  C2, as amended. The sleep is the only suspension of the loop: an iteration calls
  \<^verbatim>\<open>time.sleep\<close> at most once, and every call in a run is for more than zero and at most one
  second (the minimum of the time to the next whole second and the remaining time). The call
  is not cut into slices. The flag is tested right after the sleep: when \<^verbatim>\<open>stop()\<close> is called
  during a sleep, the loop sees it when that sleep is over, and the thread then ends with no
  announcement and no call of the observer.
\<close>

theorem sleep_is_one_call:
  "(run_countdown sc s = Some (x, s', ev) \<longrightarrow> (\<forall>d \<in> set (sleeps ev). 0 < d \<and> d \<le> 1000000))
   \<and> length (sleeps (snd (snd (loop_body k s)))) \<le> 1
   \<and> (running s \<and> 0 < current_count s \<and> end_time s = Some e \<and> 0 < e - now1 k \<and> stop_sleep k
        \<and> ticks sc = k # ks \<longrightarrow>
      run_countdown sc s =
        Some (None, s\<lparr>running := False\<rparr>,
          [Sleep (sleep_time e (now1 k)), Stop_request]
          @ (if stop_before_final sc then [Stop_request] else [])))"
proof -
  have a: "run_countdown sc s = Some (x, s', ev) \<longrightarrow>
      (\<forall>d \<in> set (sleeps ev). 0 < d \<and> d \<le> 1000000)"
    using run_countdown_sleeps [of sc s x s' ev] by blast
  have b: "length (sleeps (snd (snd (loop_body k s)))) \<le> 1"
    using loop_body_sleeps [of k s] by (cases "loop_body k s") auto
  have c: "run_countdown sc s =
        Some (None, s\<lparr>running := False\<rparr>,
          [Sleep (sleep_time e (now1 k)), Stop_request]
          @ (if stop_before_final sc then [Stop_request] else []))"
    if "running s" "0 < current_count s" "end_time s = Some e" "0 < e - now1 k" "stop_sleep k"
      "ticks sc = k # ks"
    using that loop_body_stop_in_sleep [of s e k]
      final_announcement_not_running [of "s\<lparr>running := False\<rparr>" sc]
    by (simp add: run_countdown_def)
  from a b c show ?thesis by blast
qed

theorem sleep_is_one_call_witness:
  "run_countdown (no_stop_schedule [tick_stop_asleep]) run3_timer =
     Some (None, run3_timer\<lparr>running := False\<rparr>, [Sleep 1000000, Stop_request])
   \<and> sleeps [Sleep 1000000, Stop_request] = [1000000]
   \<and> (0::int) < 1000000 \<and> (1000000::int) \<le> 1000000
   \<and> running run3_timer \<and> 0 < current_count run3_timer
   \<and> end_time run3_timer = Some 63929390403300000
   \<and> 0 < 63929390403300000 - now1 tick_stop_asleep \<and> stop_sleep tick_stop_asleep
   \<and> ticks (no_stop_schedule [tick_stop_asleep]) = [tick_stop_asleep]
   \<and> sleep_time 63929390403300000 (now1 tick_stop_asleep) = 1000000
   \<and> \<not> stop_before_final (no_stop_schedule [tick_stop_asleep])"
  using sleep_is_one_call [of "no_stop_schedule [tick_stop_asleep]" run3_timer None
      "run3_timer\<lparr>running := False\<rparr>" "[Sleep 1000000, Stop_request]" tick_stop_asleep
      63929390403300000 "[]"]
    run_stop_asleep_result
  by (simp add: run3_timer_def tick_stop_asleep_def no_stop_schedule_def sleep_time_def
      time_until_next_second_def microsecond_def)

text \<open>
  C2 as stated fails: at a whole second the loop sleeps for 1000000 microseconds in one
  call, ten times the 100 ms, and a stop request made during that call is seen after it.
\<close>

theorem sleep_not_sliced_counterexample:
  "run_countdown (no_stop_schedule [tick_stop_asleep]) run3_timer =
     Some (None, run3_timer\<lparr>running := False\<rparr>, [Sleep 1000000, Stop_request])
   \<and> (100000::int) < 1000000"
  by (simp add: run3_timer_def tick_stop_asleep_def step_defs)

subsection \<open>Stop requests\<close>

lemma countdown_loop_not_running:
  "\<not> running s \<Longrightarrow> countdown_loop ks s = Some (None, s, [])"
  by (cases ks) simp_all

lemma loop_body_late:
  assumes "loop_body k s = (f, s1, ev)" and "running s"
  shows "(Stop_request \<notin> set ev \<and> running s1) \<or> stopped_in_time (\<not> stop_late k) s1 ev"
  using assms
  by (cases "end_time s")
     (auto simp add: loop_body_def other_thread_stop_def call_callback_def speak_count_def
        Let_def stopped_in_time_def late_announcements_def late_observer_calls_def
      split: if_splits option.splits cb_outcome.splits)

lemma stopped_in_time_weaken:
  "stopped_in_time p s ev \<Longrightarrow> (q \<longrightarrow> p) \<Longrightarrow> stopped_in_time q s ev"
  by (auto simp add: stopped_in_time_def)

lemma stopped_in_time_prepend:
  "stopped_in_time p s ev \<Longrightarrow> Stop_request \<notin> set pre \<Longrightarrow> stopped_in_time p s (pre @ ev)"
  by (simp add: stopped_in_time_def late_announcements_def late_observer_calls_def
      after_stop_append_without)

lemma countdown_loop_late:
  "countdown_loop ks s = Some (x, s', ev) \<Longrightarrow> running s \<Longrightarrow>
     (Stop_request \<notin> set ev \<and> running s')
     \<or> stopped_in_time (\<forall>k \<in> set ks. \<not> stop_late k) s' ev"
proof (induction ks arbitrary: s x s' ev)
  case Nil
  then show ?case by (simp split: if_splits)
next
  case (Cons k ks)
  show ?case
  proof (cases "current_count s > 0")
    case False
    with Cons.prems show ?thesis by auto
  next
    case True
    obtain f s1 ev1 where b: "loop_body k s = (f, s1, ev1)" by (cases "loop_body k s") auto
    note bl = loop_body_late [OF b \<open>running s\<close>]
    show ?thesis
    proof (cases f)
      case Continued
      with Cons.prems True b obtain ev2 where
        r: "countdown_loop ks s1 = Some (x, s', ev2)" and e: "ev = ev1 @ ev2"
        by (auto split: option.splits)
      show ?thesis
      proof (cases "running s1")
        case True
        with bl have n: "Stop_request \<notin> set ev1" by (auto simp add: stopped_in_time_def)
        from Cons.IH [OF r True] show ?thesis
        proof
          assume "Stop_request \<notin> set ev2 \<and> running s'"
          with n e show ?thesis by simp
        next
          assume "stopped_in_time (\<forall>k \<in> set ks. \<not> stop_late k) s' ev2"
          then have "stopped_in_time (\<forall>k \<in> set (k # ks). \<not> stop_late k) s' ev2"
            by (rule stopped_in_time_weaken) simp
          then show ?thesis using n e by (simp add: stopped_in_time_prepend)
        qed
      next
        case False
        with r have "ev2 = []" and "s' = s1" by (simp_all add: countdown_loop_not_running)
        moreover from bl False have "stopped_in_time (\<not> stop_late k) s1 ev1" by simp
        then have "stopped_in_time (\<forall>k \<in> set (k # ks). \<not> stop_late k) s1 ev1"
          by (rule stopped_in_time_weaken) simp
        ultimately show ?thesis using e by simp
      qed
    next
      case Broke
      with Cons.prems True b have "ev = ev1" and "s' = s1" by auto
      moreover from bl have "(Stop_request \<notin> set ev1 \<and> running s1)
          \<or> stopped_in_time (\<forall>k \<in> set (k # ks). \<not> stop_late k) s1 ev1"
        by (auto simp add: stopped_in_time_def)
      ultimately show ?thesis by simp
    next
      case (Raised err)
      with Cons.prems True b have "ev = ev1" and "s' = s1" by auto
      moreover from bl have "(Stop_request \<notin> set ev1 \<and> running s1)
          \<or> stopped_in_time (\<forall>k \<in> set (k # ks). \<not> stop_late k) s1 ev1"
        by (auto simp add: stopped_in_time_def)
      ultimately show ?thesis by simp
    qed
  qed
qed

lemma final_announcement_late:
  assumes "final_announcement sc s = (x, s', ev)"
  shows "length (late_announcements ev) \<le> 1 \<and> length (late_observer_calls ev) \<le> 1
    \<and> (\<not> stop_after_final_test sc \<longrightarrow> late_announcements ev = [] \<and> late_observer_calls ev = [])"
  using assms
  by (auto simp add: final_announcement_def other_thread_stop_def call_callback_def
      speak_final_def Let_def late_announcements_def late_observer_calls_def
      split: if_splits option.splits cb_outcome.splits)

lemma run_countdown_late:
  assumes "run_countdown sc s = Some (x, s', ev)"
  shows "length (late_announcements ev) \<le> 1 \<and> length (late_observer_calls ev) \<le> 1
    \<and> ((\<forall>k \<in> set (ticks sc). \<not> stop_late k) \<and> \<not> stop_after_final_test sc \<longrightarrow>
         late_announcements ev = [] \<and> late_observer_calls ev = [])"
proof (cases "running s")
  case False
  then have "countdown_loop (ticks sc) s = Some (None, s, [])"
    by (rule countdown_loop_not_running)
  with assms False have "ev = (if stop_before_final sc then [Stop_request] else [])"
    by (simp add: run_countdown_def final_announcement_not_running)
  then show ?thesis by (simp add: late_announcements_def late_observer_calls_def)
next
  case True
  from assms obtain y s1 ev1 where l: "countdown_loop (ticks sc) s = Some (y, s1, ev1)"
    by (auto simp add: run_countdown_def split: option.splits)
  note cl = countdown_loop_late [OF l True]
  show ?thesis
  proof (cases y)
    case (Some err)
    with assms l have "ev = ev1" by (simp add: run_countdown_def)
    with cl show ?thesis
      by (auto simp add: stopped_in_time_def late_announcements_def late_observer_calls_def
          after_stop_without)
  next
    case None
    obtain z s2 ev2 where f: "final_announcement sc s1 = (z, s2, ev2)"
      by (cases "final_announcement sc s1") auto
    from assms l None f have e: "ev = ev1 @ ev2" by (simp add: run_countdown_def)
    from cl show ?thesis
    proof
      assume "Stop_request \<notin> set ev1 \<and> running s1"
      then have "after_stop ev = after_stop ev2" using e by (simp add: after_stop_append_without)
      with final_announcement_late [OF f] show ?thesis
        by (simp add: late_announcements_def late_observer_calls_def)
    next
      assume st: "stopped_in_time (\<forall>k \<in> set (ticks sc). \<not> stop_late k) s1 ev1"
      then have "\<not> running s1" by (simp add: stopped_in_time_def)
      with f have "ev2 = (if stop_before_final sc then [Stop_request] else [])"
        by (simp add: final_announcement_not_running)
      moreover from st e have "after_stop ev = after_stop ev1 @ ev2"
        by (simp add: stopped_in_time_def after_stop_append_with)
      ultimately show ?thesis using st
        by (auto simp add: stopped_in_time_def late_announcements_def late_observer_calls_def
            announcements_append observer_calls_append)
    qed
  qed
qed

lemma run_stop_late_result:
  "run_countdown (no_stop_schedule [tick_first, tick_stop_late]) run3_timer =
     Some (None, run3_timer\<lparr>current_count := 2, running := False\<rparr>,
       [Sleep 699950, Sleep 999850, Stop_request, Set_count 2, Speak_count 2, Observer 2])"
  by (simp add: run3_timer_def tick_first_def tick_stop_late_def step_defs)

lemma announcements_drop:
  "length (announcements (drop n ev)) \<le> length (announcements ev)"
proof -
  have "announcements ev = announcements (take n ev) @ announcements (drop n ev)"
    by (simp add: announcements_append [symmetric])
  then show ?thesis by simp
qed

lemma observer_calls_drop:
  "length (observer_calls (drop n ev)) \<le> length (observer_calls ev)"
proof -
  have "observer_calls ev = observer_calls (take n ev) @ observer_calls (drop n ev)"
    by (simp add: observer_calls_append [symmetric])
  then show ?thesis by simp
qed

lemma issued_after_return_bounds:
  "length (announcements (issued_after_return j ev)) \<le> length (late_announcements ev)
   \<and> length (observer_calls (issued_after_return j ev)) \<le> length (late_observer_calls ev)"
  by (cases j)
     (simp_all add: issued_after_return_def late_announcements_def late_observer_calls_def
        announcements_drop observer_calls_drop)

lemma run_stop_stalled_result:
  "run_countdown (no_stop_schedule [tick_first, tick_stop_stalled]) run3_timer =
     Some (None, run3_timer\<lparr>current_count := 1, running := False\<rparr>,
       [Sleep 699950, Sleep 999850, Stop_request, Set_count 1, Speak_count 1, Observer 1])"
  by (simp add: run3_timer_def tick_first_def tick_stop_stalled_def step_defs)

lemma stop_asleep_during_run:
  "stop_during_run (Timed_out 0) (no_stop_schedule [tick_stop_asleep]) run3_timer =
     Some (run3_timer\<lparr>running := False, count_thread := False\<rparr>,
       [Sleep 1000000, Stop_request], [])"
  unfolding stop_during_run_def run_stop_asleep_result
  by (simp add: stop_def issued_after_return_def run3_timer_def)

lemma stop_late_during_run:
  "stop_during_run Thread_ended (no_stop_schedule [tick_first, tick_stop_late]) run3_timer =
     Some (run3_timer\<lparr>current_count := 2, running := False, count_thread := False\<rparr>,
       [Sleep 699950, Sleep 999850, Stop_request, Set_count 2, Speak_count 2, Observer 2],
       [])"
  unfolding stop_during_run_def run_stop_late_result
  by (simp add: stop_def issued_after_return_def run3_timer_def)

text \<open>
  C3, as amended. When \<^verbatim>\<open>stop()\<close> has returned (the flag is cleared and the handle forgotten)
  and its wait of one second was enough for the thread to end, no announcement and no call
  of the observer is issued any more. This is not the same as nothing being issued once the
  flag is cleared: the loop reads the flag only in its three tests, and a stop request that
  arrives right after a test can be followed by what that test guards, one announcement and
  one call of the observer, and by nothing more; after \<^verbatim>\<open>stop()\<close> has returned this can
  happen only when the wait timed out. A stop request that arrives before the test that
  follows the sleep, or before the test of the final announcement, is followed by no
  announcement and no call of the observer, whenever \<^verbatim>\<open>stop()\<close> returns.
\<close>

theorem stop_guarantee:
  assumes "stop_during_run j sc s = Some (s', ev, late)"
  shows "\<not> is_running s' \<and> \<not> count_thread s'
    \<and> (j = Thread_ended \<longrightarrow> announcements late = [] \<and> observer_calls late = [])
    \<and> length (announcements late) \<le> 1 \<and> length (observer_calls late) \<le> 1
    \<and> length (late_announcements ev) \<le> 1 \<and> length (late_observer_calls ev) \<le> 1
    \<and> ((\<forall>k \<in> set (ticks sc). \<not> stop_late k) \<and> \<not> stop_after_final_test sc \<longrightarrow>
         late_announcements ev = [] \<and> late_observer_calls ev = []
         \<and> announcements late = [] \<and> observer_calls late = [])"
proof -
  from assms obtain x s1 where r: "run_countdown sc s = Some (x, s1, ev)"
    and s': "s' = stop s1" and l: "late = issued_after_return j ev"
    by (auto simp add: stop_during_run_def split: option.splits)
  note a = run_countdown_late [OF r]
  note b = issued_after_return_bounds [of j ev, folded l]
  have c: "\<not> is_running s' \<and> \<not> count_thread s'" by (simp add: s' stop_def is_running_def)
  have d: "j = Thread_ended \<longrightarrow> announcements late = [] \<and> observer_calls late = []"
    by (simp add: l issued_after_return_def)
  from a b have e: "length (announcements late) \<le> 1 \<and> length (observer_calls late) \<le> 1"
    by linarith
  have f: "announcements late = [] \<and> observer_calls late = []"
    if "late_announcements ev = [] \<and> late_observer_calls ev = []"
    using that b by simp
  from a c d e f show ?thesis by blast
qed

theorem stop_guarantee_witness:
  "stop_during_run (Timed_out 0) (no_stop_schedule [tick_stop_asleep]) run3_timer =
     Some (run3_timer\<lparr>running := False, count_thread := False\<rparr>,
       [Sleep 1000000, Stop_request], [])
   \<and> ticks (no_stop_schedule [tick_stop_asleep]) = [tick_stop_asleep]
   \<and> \<not> stop_late tick_stop_asleep
   \<and> \<not> stop_after_final_test (no_stop_schedule [tick_stop_asleep])
   \<and> late_announcements [Sleep 1000000, Stop_request] = []
   \<and> late_observer_calls [Sleep 1000000, Stop_request] = []
   \<and> \<not> is_running (run3_timer\<lparr>running := False, count_thread := False\<rparr>)
   \<and> stop_during_run Thread_ended (no_stop_schedule [tick_first, tick_stop_late]) run3_timer =
     Some (run3_timer\<lparr>current_count := 2, running := False, count_thread := False\<rparr>,
       [Sleep 699950, Sleep 999850, Stop_request, Set_count 2, Speak_count 2, Observer 2],
       [])
   \<and> length (late_announcements
        [Sleep 699950, Sleep 999850, Stop_request, Set_count 2, Speak_count 2, Observer 2]) \<le> 1"
  using stop_guarantee [OF stop_asleep_during_run] stop_guarantee [OF stop_late_during_run]
    stop_asleep_during_run stop_late_during_run
  by (simp add: no_stop_schedule_def tick_stop_asleep_def)

text \<open>
  C3 as stated fails in both of its forms, at different runs. When \<^verbatim>\<open>stop()\<close> clears the flag
  right after the test of line 126, the loop still assigns the count 2, announces it and
  calls the observer with it; the thread then ends and \<^verbatim>\<open>stop()\<close> returns, with nothing
  after it. When the thread is held up for a second after that test, the wait of
  \<^verbatim>\<open>stop()\<close> times out, \<^verbatim>\<open>stop()\<close> returns, and the loop then assigns the count 1, announces
  it and calls the observer with it.
\<close>

theorem stop_guarantee_counterexample:
  "stop_during_run Thread_ended (no_stop_schedule [tick_first, tick_stop_late]) run3_timer =
     Some (run3_timer\<lparr>current_count := 2, running := False, count_thread := False\<rparr>,
       [Sleep 699950, Sleep 999850, Stop_request, Set_count 2, Speak_count 2, Observer 2],
       [])
   \<and> late_announcements
        [Sleep 699950, Sleep 999850, Stop_request, Set_count 2, Speak_count 2, Observer 2]
       = [Speak_count 2]
   \<and> late_observer_calls
        [Sleep 699950, Sleep 999850, Stop_request, Set_count 2, Speak_count 2, Observer 2]
       = [2]
   \<and> stop_during_run (Timed_out 0) (no_stop_schedule [tick_first, tick_stop_stalled]) run3_timer =
     Some (run3_timer\<lparr>current_count := 1, running := False, count_thread := False\<rparr>,
       [Sleep 699950, Sleep 999850, Stop_request, Set_count 1, Speak_count 1, Observer 1],
       [Set_count 1, Speak_count 1, Observer 1])
   \<and> announcements [Set_count 1, Speak_count 1, Observer 1] = [Speak_count 1]
   \<and> observer_calls [Set_count 1, Speak_count 1, Observer 1] = [1]"
  unfolding stop_during_run_def run_stop_late_result run_stop_stalled_result
  by (simp add: stop_def issued_after_return_def late_announcements_def late_observer_calls_def
      run3_timer_def)

subsection \<open>Waking after the end time\<close>

text \<open>
  C1 fails on the code. When the thread wakes a second or more after the end time, the count
  recomputed on line 130 is 0 or negative. With 1.5 seconds, the count 0 is assigned, the
  observer is called with 0 by the loop and once more by the final announcement: twice.
  With 2.5 seconds, the count is \<open>- 1\<close>, the observer is called with \<open>- 1\<close>, and the run ends
  with no final announcement and no call with 0. With half a second, in a run of three
  seconds with count 3, the count 2 is skipped and the count 1 is still announced, after
  the end time. The test of the remaining time at the top of the loop (line 114) goes
  straight to 0 in these situations; the recomputation after the sleep does not.
\<close>

theorem overshoot_breaks_completion:
  "run_countdown (no_stop_schedule [tick_stalled]) run1_timer =
     Some (None, run1_timer\<lparr>current_count := 0, running := False\<rparr>,
       [Sleep 699950, Set_count 0, Speak_count 0, Observer 0, Speak_final, Observer 0])
   \<and> observer_calls
        [Sleep 699950, Set_count 0, Speak_count 0, Observer 0, Speak_final, Observer 0]
       = [0, 0]
   \<and> run_countdown (no_stop_schedule [tick_stalled_long]) run1_timer =
     Some (None, run1_timer\<lparr>current_count := - 1, running := False\<rparr>,
       [Sleep 699950, Set_count (- 1), Speak_count (- 1), Observer (- 1)])
   \<and> announcements [Sleep 699950, Set_count (- 1), Speak_count (- 1), Observer (- 1)]
       = [Speak_count (- 1)]
   \<and> run_countdown (no_stop_schedule [tick_overslept, tick_after_end])
        run3_timer =
     Some (None, run3_timer\<lparr>current_count := 0, running := False\<rparr>,
       [Sleep 100000, Set_count 1, Speak_count 1, Observer 1, Set_count 0, Speak_final,
        Observer 0])"
  by (simp add: run1_timer_def run3_timer_def tick_stalled_def tick_stalled_long_def
      tick_overslept_def tick_after_end_def step_defs Let_def)

end
